theory Spec2Isabelle
  imports Complex_Main "HOL-Library.Word"
begin

section \<open>The transcription service of \<^verbatim>\<open>src/lib/websocket.ts\<close>\<close>

text \<open>
  The class \<^verbatim>\<open>AudioTranscriptionService\<close> is a mutable object driven by browser events.
  Its fields become a record, each method and each event handler a function from the state
  to the new state and the list of effects it performs, in the order it performs them.
  What the browser decides (the handle a \<^verbatim>\<open>setTimeout\<close> returns, whether an
  acknowledgement arrives before a timeout) is a parameter of the function.
\<close>

subsection \<open>Data\<close>

datatype readyState = CONNECTING | OPEN | CLOSING | CLOSED

record websocket =
  readyState :: readyState
  bufferedAmount :: nat

text \<open>
  The \<^verbatim>\<open>Error\<close> objects the class creates. Their messages are Chinese texts in the
  source; a constructor stands for each:
  \<^item> \<open>NotConnected\<close>: "WebSocket not connected" (lines 253 and 326);
  \<^item> \<open>ReconnectFailed\<close>: "WebSocket reconnect failed" (line 164);
  \<^item> \<open>WaitReadyTimeout\<close>: "timed out waiting for the WebSocket to be ready" (line 245);
  \<^item> \<open>ConfigTimeout\<close>: "config send timed out" (line 282);
  \<^item> \<open>SendFailed\<close>: whatever \<^verbatim>\<open>ws.send\<close> throws;
  \<^item> \<open>RangeError\<close>: what \<^verbatim>\<open>new Int16Array(buffer)\<close> throws on an odd byte length, and
    what a call with too many arguments throws.
\<close>

datatype error = NotConnected | ReconnectFailed | WaitReadyTimeout | ConfigTimeout
  | SendFailed | RangeError

text \<open>A JSON value, as far as \<^verbatim>\<open>sendConfig\<close> builds one: an object keeps its keys in order.\<close>

datatype json = JStr string | JBool bool | JNum rat | JObject "(string \<times> json) list"

type_synonym byte = "8 word"
type_synonym int16 = "16 word"

text \<open>The two callbacks the class hands to an unawaited \<^verbatim>\<open>setTimeout\<close>.\<close>

datatype timer_callback =
    ConnectionTimeout       \<comment> \<open>lines 80 to 91\<close>
  | ReconnectCallback       \<comment> \<open>lines 179 to 193\<close>

datatype effect =
    SetTimeout nat timer_callback nat  \<comment> \<open>\<^verbatim>\<open>setTimeout(callback, delay)\<close>: handle, callback, delay in ms\<close>
  | ClearTimeout nat        \<comment> \<open>\<^verbatim>\<open>clearTimeout(handle)\<close>\<close>
  | WsClose                 \<comment> \<open>\<^verbatim>\<open>this.ws.close()\<close>\<close>
  | WsNew                   \<comment> \<open>\<^verbatim>\<open>new WebSocket(wsUrl)\<close>\<close>
  | WsSendText json         \<comment> \<open>\<^verbatim>\<open>this.ws.send(JSON.stringify(config))\<close>\<close>
  | WsSendBinary "byte list" \<comment> \<open>\<^verbatim>\<open>this.ws.send(audioData)\<close>\<close>
  | CallOnError error       \<comment> \<open>\<^verbatim>\<open>this.callbacks.onError(new Error(...))\<close>\<close>
  | CallOnOpen              \<comment> \<open>\<^verbatim>\<open>this.callbacks.onOpen(event)\<close>\<close>
  | Sleep nat               \<comment> \<open>an awaited \<^verbatim>\<open>setTimeout(resolve, ms)\<close>\<close>

text \<open>
  The fields of the class (lines 11 to 27). A callback is modelled by whether it is set.
  A timer handle is a positive number in a browser, so \<^verbatim>\<open>if (this.reconnectTimer)\<close>
  tests for \<open>Some\<close>.
\<close>

record service =
  ws :: "websocket option"
  onOpen :: bool
  onError :: bool
  language :: string
  model :: string
  reconnectAttempts :: nat
  reconnectTimer :: "nat option"
  isReconnecting :: bool

text \<open>
  \<^verbatim>\<open>maxReconnectAttempts = 5\<close> and \<^verbatim>\<open>reconnectDelay = 1000\<close> are private fields
  that no method assigns.
\<close>

definition maxReconnectAttempts :: nat where
  "maxReconnectAttempts = 5"

definition reconnectDelay :: nat where
  "reconnectDelay = 1000"

subsection \<open>Reconnection (lines 155 to 194)\<close>

text \<open>
  Line 171, after the increment of line 170:
  \<^verbatim>\<open>Math.min(this.reconnectDelay * Math.pow(2, this.reconnectAttempts - 1), 30000)\<close>.
  The numbers are small integers, exact as doubles.
\<close>

definition backoffDelay :: "nat \<Rightarrow> nat" where
  "backoffDelay attempts = min (reconnectDelay * 2 ^ (attempts - 1)) 30000"

text \<open>\<open>tid\<close> is the handle that \<^verbatim>\<open>setTimeout\<close> returns at line 179.\<close>

definition attemptReconnect :: "nat \<Rightarrow> service \<Rightarrow> service \<times> effect list" where
  "attemptReconnect tid s =
     (if isReconnecting s then (s, [])
      else if reconnectAttempts s \<ge> maxReconnectAttempts then
        (s, if onError s then [CallOnError ReconnectFailed] else [])
      else
        let s1 = s\<lparr>isReconnecting := True, reconnectAttempts := reconnectAttempts s + 1\<rparr>;
            delay = backoffDelay (reconnectAttempts s1)
        in (s1\<lparr>reconnectTimer := Some tid\<rparr>,
            (case reconnectTimer s1 of Some t \<Rightarrow> [ClearTimeout t] | None \<Rightarrow> [])
              @ [SetTimeout tid ReconnectCallback delay]))"

subsection \<open>The configuration message (lines 256 to 269)\<close>

text \<open>
  \<^verbatim>\<open>sendConfig\<close> builds the message from \<^verbatim>\<open>this.config\<close>, which has the two fields
  \<^verbatim>\<open>language\<close> and \<^verbatim>\<open>model\<close> (lines 19 to 22), and from constants.
\<close>

definition configMessage :: "service \<Rightarrow> json" where
  "configMessage s =
     JObject [
       (''event'', JStr ''config''),
       (''config'', JObject [
          (''language'', JStr (language s)),
          (''model'', JStr (model s)),
          (''noise_suppression'', JBool False),
          (''enable_realtime_transcription'', JBool True),
          (''use_main_model_for_realtime'', JBool True),
          (''realtime_model_type'', JStr ''tiny''),
          (''realtime_processing_pause'', JNum (2 / 10)),
          (''stabilization_window'', JNum 2),
          (''match_threshold'', JNum 10)])]"

text \<open>The keys of the payload under \<^verbatim>\<open>config\<close>, and all string values of a message.\<close>

fun payloadKeys :: "json \<Rightarrow> string list" where
  "payloadKeys (JObject [(e, ev), (c, JObject kvs)]) = map fst kvs"
| "payloadKeys _ = []"

fun jsonStrings :: "json \<Rightarrow> string list" where
  "jsonStrings (JStr x) = [x]"
| "jsonStrings (JBool b) = []"
| "jsonStrings (JNum r) = []"
| "jsonStrings (JObject kvs) = concat (map (\<lambda>kv. jsonStrings (snd kv)) kvs)"

subsection \<open>The handshake (lines 236 to 321)\<close>

text \<open>
  What the environment decides during one call of \<^verbatim>\<open>sendConfig\<close>:
  \<^item> \<open>polled i\<close>: what \<^verbatim>\<open>this.ws?.readyState\<close> reads at the poll number \<open>i\<close> of
    \<^verbatim>\<open>waitForConnection\<close>, for \<open>i > 0\<close> (\<open>None\<close> when there is no socket); the poll
    number 0 happens at the call and reads the state;
  \<^item> \<open>outcome k\<close>: what happens at attempt \<open>k\<close> of the loop of line 272: \<^verbatim>\<open>ws.send\<close>
    throws, or an acknowledgement (\<^verbatim>\<open>config_updated\<close> or \<^verbatim>\<open>config_received\<close>) arrives
    before the 5000 ms timer, or the timer fires first.
\<close>

datatype attempt_outcome = SendThrows | Acknowledged | TimedOut

record handshake_env =
  polled :: "nat \<Rightarrow> readyState option"
  outcome :: "nat \<Rightarrow> attempt_outcome"

definition readyAt :: "service \<Rightarrow> handshake_env \<Rightarrow> nat \<Rightarrow> readyState option" where
  "readyAt s env i = (if i = 0 then map_option readyState (ws s) else polled env i)"

text \<open>
  \<^verbatim>\<open>waitForConnection\<close> (lines 238 to 246), from poll \<open>i\<close> on: the sleeps it makes and
  the number of the poll that read \<open>OPEN\<close>, or \<open>None\<close> when it throws after ten polls.
\<close>

function waitForConnection :: "(nat \<Rightarrow> readyState option) \<Rightarrow> nat \<Rightarrow> effect list \<times> nat option" where
  "waitForConnection rd i =
     (if i < 10 then
        (if rd i = Some OPEN then ([], Some i)
         else (let (es, r) = waitForConnection rd (i + 1) in (Sleep 500 # es, r)))
      else ([], None))"
  by pat_completeness auto
termination
  by (relation "measure (\<lambda>(rd, i). 10 - i)") auto

text \<open>
  The loop of lines 272 to 316, from \<open>attempt\<close> on. In the promise of lines 278 to 304 the
  timer callback rejects at attempt 3 only; at attempts 1 and 2 it calls \<^verbatim>\<open>resolve()\<close>
  (line 285), exactly as the acknowledgement handler does (line 296), so the \<^verbatim>\<open>await\<close>
  completes and line 307 returns. The \<^verbatim>\<open>catch\<close> of line 309, with its increasing sleep
  and the next round of the loop, is reached when \<^verbatim>\<open>ws.send\<close> throws or when the
  promise rejects. The result is the effects and the error thrown, if any.
\<close>

function configAttempts :: "json \<Rightarrow> (nat \<Rightarrow> attempt_outcome) \<Rightarrow> nat \<Rightarrow> effect list \<times> error option" where
  "configAttempts msg oc attempt =
     (if attempt \<le> 3 then
        (case oc attempt of
           SendThrows \<Rightarrow>
             if attempt = 3 then ([], Some SendFailed)
             else (let (es, r) = configAttempts msg oc (attempt + 1)
                   in (Sleep (1000 * attempt) # es, r))
         | Acknowledged \<Rightarrow> ([WsSendText msg], None)
         | TimedOut \<Rightarrow>
             if attempt = 3 then ([WsSendText msg, Sleep 5000], Some ConfigTimeout)
             else ([WsSendText msg, Sleep 5000], None))
      else ([], None))"
  by pat_completeness auto
termination
  by (relation "measure (\<lambda>(msg, oc, attempt). 4 - attempt)") auto

declare waitForConnection.simps [simp del] configAttempts.simps [simp del]

definition sendConfig :: "service \<Rightarrow> handshake_env \<Rightarrow> effect list \<times> error option" where
  "sendConfig s env =
     (case waitForConnection (readyAt s env) 0 of
        (es, None) \<Rightarrow> (es, Some WaitReadyTimeout)
      | (es, Some i) \<Rightarrow>
          (if readyAt s env i = Some OPEN then
             (let (es2, r) = configAttempts (configMessage s) (outcome env) 1
              in (es @ es2, r))
           else (es, Some NotConnected)))"

text \<open>
  \<^verbatim>\<open>updateConfig\<close> (lines 369 to 373) has two parameters. It does not await
  \<^verbatim>\<open>sendConfig\<close>, so an error of the handshake is an unhandled rejection.
\<close>

definition updateConfig :: "string \<Rightarrow> string \<Rightarrow> service \<Rightarrow> handshake_env \<Rightarrow> service \<times> effect list" where
  "updateConfig lang mdl s env =
     (let s1 = s\<lparr>language := lang, model := mdl\<rparr>
      in (s1, fst (sendConfig s1 env)))"

text \<open>
  The caller in \<^verbatim>\<open>src/components/AudioRecorder.tsx\<close>, line 142:
  \<^verbatim>\<open>audioTranscriptionService.updateConfig(language, modelType, targetLanguage)\<close>.
  JavaScript drops an argument that has no parameter.
\<close>

definition recorderUpdateConfig ::
    "string \<Rightarrow> string \<Rightarrow> string \<Rightarrow> service \<Rightarrow> handshake_env \<Rightarrow> service \<times> effect list" where
  "recorderUpdateConfig lang modelType targetLanguage s env = updateConfig lang modelType s env"

subsection \<open>Connecting (lines 47 to 153)\<close>

datatype promise = Resolved | Rejected | Pending

text \<open>
  The options of \<^verbatim>\<open>connect\<close>: the type \<^verbatim>\<open>TranscriptionOptions\<close> (lines 1 to 8), the
  callbacks by whether they are given. \<^verbatim>\<open>if (options.language)\<close> holds for a non-empty
  string.
\<close>

record connect_options =
  opt_onOpen :: bool
  opt_onError :: bool
  opt_language :: "string option"
  opt_model :: "string option"

definition truthy :: "string option \<Rightarrow> bool" where
  "truthy x = (case x of None \<Rightarrow> False | Some v \<Rightarrow> v \<noteq> [])"

text \<open>
  The part of \<^verbatim>\<open>connect\<close> that runs at the call. \<open>throws\<close> says that
  \<^verbatim>\<open>new WebSocket\<close> throws, \<open>cid\<close> is the handle of the connection timeout and \<open>tid\<close>
  the handle of a reconnect timer. The promise stays pending until an event settles it.
\<close>

definition connect ::
    "connect_options \<Rightarrow> bool \<Rightarrow> nat \<Rightarrow> nat \<Rightarrow> service \<Rightarrow> service \<times> effect list \<times> promise" where
  "connect options throws cid tid s =
     (if isReconnecting s then (s, [], Resolved)
      else
        let es0 = (case ws s of Some w \<Rightarrow> [WsClose] | None \<Rightarrow> []);
            s1 = s\<lparr>ws := None, onOpen := opt_onOpen options, onError := opt_onError options\<rparr>;
            s2 = (if truthy (opt_language options)
                  then s1\<lparr>language := the (opt_language options)\<rparr> else s1);
            s3 = (if truthy (opt_model options)
                  then s2\<lparr>model := the (opt_model options)\<rparr> else s2)
        in if throws then
             (let (s4, es) = attemptReconnect tid s3 in (s4, es0 @ es, Rejected))
           else
             (s3\<lparr>ws := Some \<lparr>readyState = CONNECTING, bufferedAmount = 0\<rparr>\<rparr>,
              es0 @ [WsNew, SetTimeout cid ConnectionTimeout 5000], Pending))"

text \<open>
  The reconnect callback (lines 179 to 193), at the call of \<^verbatim>\<open>connect\<close>: the options
  are the callbacks and the configuration of the state; the \<^verbatim>\<open>catch\<close> clears the flag
  when \<^verbatim>\<open>connect\<close> rejects.
\<close>

definition reconnectCallback :: "bool \<Rightarrow> nat \<Rightarrow> nat \<Rightarrow> service \<Rightarrow> service \<times> effect list \<times> promise" where
  "reconnectCallback throws cid tid s =
     (let options = \<lparr>opt_onOpen = onOpen s, opt_onError = onError s,
                     opt_language = Some (language s), opt_model = Some (model s)\<rparr>;
          (s1, es, p) = connect options throws cid tid s
      in (if p = Rejected then s1\<lparr>isReconnecting := False\<rparr> else s1, es, p))"

text \<open>
  The handler \<^verbatim>\<open>ws.onopen\<close> (lines 93 to 114). \<open>cid\<close> is the handle of the connection
  timeout, \<open>settled\<close> the socket field after the 500 ms of line 102. The result is the
  state, the effects, the flag \<^verbatim>\<open>configSent\<close> and what becomes of the promise of
  \<^verbatim>\<open>connect\<close>: both the \<^verbatim>\<open>try\<close> and the \<^verbatim>\<open>catch\<close> call \<^verbatim>\<open>resolve()\<close>.
\<close>

definition ws_onopen ::
    "nat \<Rightarrow> websocket option \<Rightarrow> handshake_env \<Rightarrow> service \<Rightarrow> service \<times> effect list \<times> bool \<times> promise" where
  "ws_onopen cid settled env s =
     (let s1 = s\<lparr>reconnectAttempts := 0, isReconnecting := False\<rparr>;
          es1 = [ClearTimeout cid] @ (if onOpen s1 then [CallOnOpen] else []) @ [Sleep 500];
          s2 = s1\<lparr>ws := settled\<rparr>;
          (es2, r) = sendConfig s2 env
      in (case r of
            None \<Rightarrow> (s2, es1 @ es2, True, Resolved)
          | Some e \<Rightarrow> (s2, es1 @ es2, False, Resolved)))"

text \<open>
  A run of reconnect requests, one for each handle of the list: a request is a call of
  \<^verbatim>\<open>attemptReconnect\<close>; when it has scheduled the reconnect timer, the timer fires and
  its callback runs before the next request comes. The constructor of the socket does not
  throw.
\<close>

definition schedulesReconnect :: "effect list \<Rightarrow> bool" where
  "schedulesReconnect es =
     list_ex (\<lambda>e. case e of SetTimeout t ReconnectCallback d \<Rightarrow> True | _ \<Rightarrow> False) es"

fun reconnectRequests :: "nat list \<Rightarrow> service \<Rightarrow> service \<times> effect list" where
  "reconnectRequests [] s = (s, [])"
| "reconnectRequests (tid # tids) s =
     (let (s1, es1) = attemptReconnect tid s;
          (s2, es2, p) = (if schedulesReconnect es1 then reconnectCallback False tid tid s1
                          else (s1, [], Resolved));
          (s3, es3) = reconnectRequests tids s2
      in (s3, es1 @ es2 @ es3))"

subsection \<open>Disconnecting (lines 375 to 388)\<close>

definition disconnect :: "service \<Rightarrow> service \<times> effect list" where
  "disconnect s =
     (let es1 = (case reconnectTimer s of Some t \<Rightarrow> [ClearTimeout t] | None \<Rightarrow> []);
          s1 = s\<lparr>reconnectTimer := None, isReconnecting := False, reconnectAttempts := 0\<rparr>;
          es2 = (case ws s1 of Some w \<Rightarrow> [WsClose] | None \<Rightarrow> [])
      in (s1\<lparr>ws := None\<rparr>, es1 @ es2))"

subsection \<open>Sending audio (lines 323 to 367)\<close>

text \<open>
  An \<^verbatim>\<open>ArrayBuffer\<close> is a list of bytes. \<^verbatim>\<open>new Int16Array(buffer)\<close> views it as 16-bit
  samples in the byte order of the platform (little-endian on every browser platform) and
  throws a \<^verbatim>\<open>RangeError\<close> when the byte length is odd.
\<close>

fun int16View :: "byte list \<Rightarrow> int16 list option" where
  "int16View [] = Some []"
| "int16View [b] = None"
| "int16View (lo # hi # bs) = map_option (\<lambda>v. word_cat hi lo # v) (int16View bs)"

fun bufferOf :: "int16 list \<Rightarrow> byte list" where
  "bufferOf [] = []"
| "bufferOf (x # xs) = ucast x # ucast (drop_bit 8 x) # bufferOf xs"

text \<open>
  \<^verbatim>\<open>Math.abs\<close> of a sample is a number, so the absolute value of \<open>-32768\<close> is \<open>32768\<close>.
  \<^verbatim>\<open>Math.max\<close> of no argument is \<open>-Infinity\<close>, modelled by \<open>None\<close>, which is below 100.
\<close>

definition absSample :: "int16 \<Rightarrow> int" where
  "absSample x = \<bar>sint x\<bar>"

fun mathMax :: "int list \<Rightarrow> int option" where
  "mathMax [] = None"
| "mathMax (x # xs) = Some (fold max xs x)"

definition belowNumber :: "int option \<Rightarrow> int \<Rightarrow> bool" where
  "belowNumber m t = (case m of None \<Rightarrow> True | Some v \<Rightarrow> v < t)"

text \<open>
  Line 343 spreads the samples into the call of \<^verbatim>\<open>Math.max\<close>, one argument for each
  sample. A JavaScript engine throws a \<^verbatim>\<open>RangeError\<close> when a call gets more arguments
  than its stack takes; how many that is belongs to the engine, not to the source, and is
  the parameter \<open>argLimit\<close>. The \<^verbatim>\<open>catch\<close> of line 363 throws the error again, so
  \<^verbatim>\<open>ws.send\<close> is not reached.

  The result of a call of an async method after it has settled: the effects and the error
  it rejects with, if any. The wait of line 338 is an effect; the socket is taken to be the
  same after it.
\<close>

definition sendAudioData :: "nat \<Rightarrow> service \<Rightarrow> byte list \<Rightarrow> effect list \<times> error option" where
  "sendAudioData argLimit s audioData =
     (case ws s of
        None \<Rightarrow> ([], Some NotConnected)
      | Some w \<Rightarrow>
          if readyState w \<noteq> OPEN then ([], Some NotConnected)
          else if length audioData = 0 then ([], None)
          else
            let es = (if bufferedAmount w > 1024 * 1024 then [Sleep 100] else [])
            in (case int16View audioData of
                  None \<Rightarrow> (es, Some RangeError)
                | Some view \<Rightarrow>
                    if length view > argLimit then (es, Some RangeError)
                    else
                      let maxAbs = mathMax (map absSample view)
                      in if belowNumber maxAbs 100 then (es, None)
                         else (es @ [WsSendBinary audioData], None)))"

section \<open>The recorder of \<^verbatim>\<open>src/components/AudioRecorder.tsx\<close>\<close>

subsection \<open>What a handler reads and what it writes\<close>

text \<open>
  \<^verbatim>\<open>AudioRecorder\<close> is a React function component. Every render declares the state
  variables anew as constants (\<^verbatim>\<open>const [silenceTimerActive, setSilenceTimerActive] =
  useState(false)\<close>, line 32) and creates a new function \<^verbatim>\<open>handleAudioProcess\<close> that
  closes over them. \<^verbatim>\<open>startRecording\<close> installs the function of the render it was called
  from (\<^verbatim>\<open>processor.onaudioprocess = handleAudioProcess\<close>, lines 361, 376 and 384), and
  nothing installs another one while the recording runs. So the handler that receives the
  frames of one recording reads the state variables of one render, the record \<open>render\<close>:
  a call of a setter changes what a later render sees, not what this handler reads.
  What the handler shares with the timer callback and with later calls are the refs
  (\<^verbatim>\<open>useRef\<close>, lines 54 and 55) and the browser's timers, the record \<open>recorder\<close>.
\<close>

datatype noiseFilterLevel = Off | Low | Medium | High

record render =
  useRNNoise :: bool
  noiseFilterLevel :: noiseFilterLevel
  autoPauseAfterSilence :: bool
  silenceTimerActive :: bool
  isConnected :: bool

text \<open>
  \<open>timers\<close> are the handles of the countdowns that are pending in the browser (each is set
  with a delay of 3000 ms, line 569), \<open>nextTimer\<close> the handle the next \<^verbatim>\<open>setTimeout\<close>
  returns; \<open>silenceTimerActiveState\<close> and \<open>isRecording\<close> are the values the setters have
  stored for the next render.
\<close>

record recorder =
  silenceCounterRef :: nat
  silenceTimerRef :: "nat option"
  timers :: "nat list"
  nextTimer :: nat
  silenceTimerActiveState :: bool
  isRecording :: bool

subsection \<open>Frame statistics (lines 453 to 461 and 498 to 526)\<close>

text \<open>
  The input is \<^verbatim>\<open>int16Array\<close>, the frame after the conversion of lines 447 to 451. The
  sums are integers far below \<open>2 ^ 53\<close>, exact as doubles; the quotient and the square root
  are taken over the reals. For an empty array JavaScript computes \<open>NaN\<close>, above no
  threshold, and here \<open>0\<close>, which is above none of the thresholds either.
\<close>

definition maxAmplitude :: "int16 list \<Rightarrow> int" where
  "maxAmplitude xs = fold (\<lambda>x m. if absSample x > m then absSample x else m) xs 0"

definition sumOfSquares :: "int16 list \<Rightarrow> int" where
  "sumOfSquares xs = fold (\<lambda>x acc. acc + sint x * sint x) xs 0"

definition rms :: "int16 list \<Rightarrow> real" where
  "rms xs = sqrt (real_of_int (sumOfSquares xs) / real (length xs))"

definition voiceFreqMin :: nat where
  "voiceFreqMin = 5"

definition voiceFreqMax :: nat where
  "voiceFreqMax = 25"

definition voiceRangeEnergy :: "int16 list \<Rightarrow> int" where
  "voiceRangeEnergy xs =
     fold (\<lambda>(i, x) acc. if i \<ge> voiceFreqMin \<and> i \<le> voiceFreqMax then acc + sint x * sint x else acc)
       (enumerate 0 xs) 0"

definition totalEnergy :: "int16 list \<Rightarrow> int" where
  "totalEnergy xs = fold (\<lambda>x acc. acc + sint x * sint x) xs 1"

definition voiceEnergyRatio :: "int16 list \<Rightarrow> real" where
  "voiceEnergyRatio xs = real_of_int (voiceRangeEnergy xs) / real_of_int (totalEnergy xs)"

subsection \<open>The decision (lines 470 to 551)\<close>

fun volumeThreshold :: "noiseFilterLevel \<Rightarrow> int" where
  "volumeThreshold Low = 1000"
| "volumeThreshold Medium = 2000"
| "volumeThreshold High = 3000"
| "volumeThreshold Off = 0"

fun rmsThreshold :: "noiseFilterLevel \<Rightarrow> real" where
  "rmsThreshold Low = 300"
| "rmsThreshold Medium = 500"
| "rmsThreshold High = 800"
| "rmsThreshold Off = 0"

definition voiceRatioThreshold :: "noiseFilterLevel \<Rightarrow> real" where
  "voiceRatioThreshold lvl = (if lvl = High then 25 / 100 else 15 / 100)"

definition isLikelyVoice :: "render \<Rightarrow> int16 list \<Rightarrow> bool" where
  "isLikelyVoice rd xs =
     (if \<not> useRNNoise rd \<and> noiseFilterLevel rd \<noteq> Off then
        let lvl = noiseFilterLevel rd;
            v = (maxAmplitude xs > volumeThreshold lvl \<or> rms xs > rmsThreshold lvl);
            hasSignificantVoiceFreq = (voiceEnergyRatio xs > voiceRatioThreshold lvl)
        in if lvl = High then v \<and> hasSignificantVoiceFreq
           else (if hasSignificantVoiceFreq then True else v)
      else if useRNNoise rd then maxAmplitude xs > 500
      else True)"

subsection \<open>The handler (lines 440 to 607) and the countdown\<close>

text \<open>
  The result is the new refs and timers, and the buffers the handler passes to
  \<^verbatim>\<open>audioTranscriptionService.sendAudioData\<close> (line 600), of which there is at most one.
\<close>

definition silenceAccounting :: "render \<Rightarrow> bool \<Rightarrow> recorder \<Rightarrow> recorder" where
  "silenceAccounting rd voice st =
     (if autoPauseAfterSilence rd then
        (if \<not> voice then
           (let st1 = st\<lparr>silenceCounterRef := silenceCounterRef st + 1\<rparr>
            in if silenceCounterRef st1 > 50 \<and> \<not> silenceTimerActive rd then
                 st1\<lparr>silenceTimerActiveState := True,
                     silenceTimerRef := Some (nextTimer st1),
                     timers := timers st1 @ [nextTimer st1],
                     nextTimer := nextTimer st1 + 1\<rparr>
               else st1)
         else
           (let st1 = st\<lparr>silenceCounterRef := 0\<rparr>
            in (case silenceTimerRef st1 of
                  Some t \<Rightarrow>
                    if silenceTimerActive rd then
                      st1\<lparr>timers := removeAll t (timers st1),
                          silenceTimerRef := None,
                          silenceTimerActiveState := False\<rparr>
                    else st1
                | None \<Rightarrow> st1)))
      else st)"

definition handleAudioProcess :: "render \<Rightarrow> recorder \<Rightarrow> int16 list \<Rightarrow> recorder \<times> byte list list" where
  "handleAudioProcess rd st int16Array =
     (let voice = isLikelyVoice rd int16Array;
          st1 = silenceAccounting rd voice st
      in if \<not> voice then (st1, [])
         else if \<not> isConnected rd then (st1, [])
         else (st1, [bufferOf int16Array]))"

text \<open>
  The callback of the countdown (lines 565 to 569), for the timer \<open>t\<close>: a timer that was
  cleared does not fire. \<^verbatim>\<open>stopRecording\<close> releases the audio graph and stores
  \<^verbatim>\<open>isRecording = false\<close>.
\<close>

definition countdownElapses :: "nat \<Rightarrow> recorder \<Rightarrow> recorder" where
  "countdownElapses t st =
     (if t \<in> set (timers st) then
        st\<lparr>timers := removeAll t (timers st), isRecording := False,
            silenceTimerActiveState := False\<rparr>
      else st)"

text \<open>A recording: the frames that one installed handler receives, in order.\<close>

fun frames :: "render \<Rightarrow> recorder \<Rightarrow> int16 list list \<Rightarrow> recorder \<times> byte list list" where
  "frames rd st [] = (st, [])"
| "frames rd st (x # xs) =
     (let (st1, out1) = handleAudioProcess rd st x;
          (st2, out2) = frames rd st1 xs
      in (st2, out1 @ out2))"

text \<open>
  What reaches the socket when the service receives the calls of the handler, on an engine
  with the argument limit \<open>argLimit\<close>.
\<close>

definition transmitted :: "nat \<Rightarrow> service \<Rightarrow> byte list list \<Rightarrow> effect list" where
  "transmitted argLimit s calls = concat (map (\<lambda>b. fst (sendAudioData argLimit s b)) calls)"

section \<open>States, environments and frames used in the statements\<close>

text \<open>
  The service as its constructor leaves it (lines 11 to 27), and a service whose socket is
  open and whose caller has given the callbacks.
\<close>

definition initialService :: service where
  "initialService =
     \<lparr>ws = None, onOpen = False, onError = False, language = ''zh'', model = ''tiny'',
      reconnectAttempts = 0, reconnectTimer = None, isReconnecting = False\<rparr>"

definition openService :: service where
  "openService =
     initialService\<lparr>ws := Some \<lparr>readyState = OPEN, bufferedAmount = 0\<rparr>,
       onOpen := True, onError := True\<rparr>"

text \<open>
  A session whose socket has closed without a clean close, the state in which
  \<^verbatim>\<open>ws.onclose\<close> asks for a reconnect (lines 127 to 130).
\<close>

definition droppedService :: service where
  "droppedService = openService\<lparr>ws := Some \<lparr>readyState = CLOSED, bufferedAmount = 0\<rparr>\<rparr>"

text \<open>
  Two environments of a handshake on an open socket: in the first no acknowledgement ever
  arrives, in the second every message is acknowledged in time.
\<close>

definition neverAcknowledged :: handshake_env where
  "neverAcknowledged = \<lparr>polled = (\<lambda>i. Some OPEN), outcome = (\<lambda>k. TimedOut)\<rparr>"

definition acknowledging :: handshake_env where
  "acknowledging = \<lparr>polled = (\<lambda>i. Some OPEN), outcome = (\<lambda>k. Acknowledged)\<rparr>"

text \<open>The text messages among the effects, in order.\<close>

definition sendsText :: "effect list \<Rightarrow> json list" where
  "sendsText es = concat (map (\<lambda>e. case e of WsSendText m \<Rightarrow> [m] | _ \<Rightarrow> []) es)"

text \<open>
  Renders: one in heuristic mode at a given level, and the render of a recording started
  with the defaults of the component (lines 30 to 33) after the user has ticked the
  auto-stop box. \<open>startRecorder\<close> is the recorder when the recording starts.
\<close>

definition heuristicRender :: "noiseFilterLevel \<Rightarrow> render" where
  "heuristicRender lvl =
     \<lparr>useRNNoise = False, noiseFilterLevel = lvl, autoPauseAfterSilence = False,
      silenceTimerActive = False, isConnected = True\<rparr>"

definition recordingRender :: render where
  "recordingRender =
     \<lparr>useRNNoise = True, noiseFilterLevel = Medium, autoPauseAfterSilence = True,
      silenceTimerActive = False, isConnected = True\<rparr>"

definition startRecorder :: recorder where
  "startRecorder =
     \<lparr>silenceCounterRef = 0, silenceTimerRef = None, timers = [], nextTimer = 1,
      silenceTimerActiveState = False, isRecording = True\<rparr>"

text \<open>
  Frames: 1024 samples of silence, 1024 samples of amplitude 1000, and a short frame whose
  peak is 2999, whose RMS is about 1291 and whose voice-energy ratio is exactly 0.10.
\<close>

definition silentFrame :: "int16 list" where
  "silentFrame = replicate 1024 0"

definition voicedFrame :: "int16 list" where
  "voicedFrame = replicate 1024 1000"

definition loudFrame :: "int16 list" where
  "loudFrame = [2999, 77, 8, 2, 1, 1000]"

text \<open>The test of line 324, negated.\<close>

definition isOpen :: "service \<Rightarrow> bool" where
  "isOpen s = (case ws s of None \<Rightarrow> False | Some w \<Rightarrow> readyState w = OPEN)"

section \<open>Theorems\<close>

subsection \<open>Reconnection backoff\<close>

lemma backoffDelay_mono: "m \<le> n \<Longrightarrow> backoffDelay m \<le> backoffDelay n"
proof -
  assume "m \<le> n"
  then have "(2::nat) ^ (m - 1) \<le> 2 ^ (n - 1)"
    by (intro power_increasing) auto
  then have "reconnectDelay * 2 ^ (m - 1) \<le> reconnectDelay * 2 ^ (n - 1)"
    by (rule mult_le_mono2)
  then show ?thesis
    unfolding backoffDelay_def by (rule min.mono) simp
qed

text \<open>
  C1. For every attempt number \<open>n\<close> from 1 to \<open>maxReconnectAttempts\<close>: when the \<open>n\<close>-th
  reconnect is requested (the counter stands at \<open>n - 1\<close> and no reconnect is pending),
  \<open>attemptReconnect\<close> raises the counter to \<open>n\<close> and schedules exactly one timer, whose
  delay is \<open>min (1000 * 2 ^ (n - 1)) 30000\<close> ms; and the delay of an earlier attempt is
  never larger than the delay of a later one.
\<close>

theorem attemptReconnect_backoff:
  assumes "1 \<le> n" and "n \<le> maxReconnectAttempts"
    and "\<not> isReconnecting s" and "reconnectAttempts s = n - 1"
  shows "reconnectAttempts (fst (attemptReconnect tid s)) = n
    \<and> filter (\<lambda>e. case e of SetTimeout _ _ _ \<Rightarrow> True | _ \<Rightarrow> False) (snd (attemptReconnect tid s))
        = [SetTimeout tid ReconnectCallback (min (1000 * 2 ^ (n - 1)) 30000)]
    \<and> (\<forall>m. 1 \<le> m \<and> m \<le> n \<longrightarrow>
          min (1000 * 2 ^ (m - 1)) 30000 \<le> (min (1000 * 2 ^ (n - 1)) 30000 :: nat))"
proof -
  from assms have lt: "\<not> reconnectAttempts s \<ge> maxReconnectAttempts" and n: "reconnectAttempts s + 1 = n"
    by auto
  have "reconnectAttempts (fst (attemptReconnect tid s)) = n"
    using assms(3) lt n by (simp add: attemptReconnect_def Let_def)
  moreover have "filter (\<lambda>e. case e of SetTimeout _ _ _ \<Rightarrow> True | _ \<Rightarrow> False) (snd (attemptReconnect tid s))
        = [SetTimeout tid ReconnectCallback (min (1000 * 2 ^ (n - 1)) 30000)]"
    using assms(3) lt n
    by (simp add: attemptReconnect_def Let_def backoffDelay_def reconnectDelay_def
        split: option.split)
  moreover have "\<forall>m. 1 \<le> m \<and> m \<le> n \<longrightarrow>
      min (1000 * 2 ^ (m - 1)) 30000 \<le> (min (1000 * 2 ^ (n - 1)) 30000 :: nat)"
    using backoffDelay_mono [of _ n] by (simp add: backoffDelay_def reconnectDelay_def)
  ultimately show ?thesis by blast
qed

theorem attemptReconnect_backoff_witness:
  "(1::nat) \<le> 3 \<and> 3 \<le> maxReconnectAttempts
   \<and> \<not> isReconnecting (openService\<lparr>reconnectAttempts := 2\<rparr>)
   \<and> reconnectAttempts (fst (attemptReconnect 7 (openService\<lparr>reconnectAttempts := 2\<rparr>))) = 3
   \<and> snd (attemptReconnect 7 (openService\<lparr>reconnectAttempts := 2\<rparr>))
       = [SetTimeout 7 ReconnectCallback 4000]
   \<and> min (1000 * 2 ^ (2 - 1)) 30000 \<le> (min (1000 * 2 ^ (3 - 1)) 30000 :: nat)"
proof -
  have h: "(1::nat) \<le> 3" "3 \<le> maxReconnectAttempts"
    "\<not> isReconnecting (openService\<lparr>reconnectAttempts := 2\<rparr>)"
    "reconnectAttempts (openService\<lparr>reconnectAttempts := 2\<rparr>) = 3 - 1"
    by (simp_all add: maxReconnectAttempts_def openService_def initialService_def)
  have "snd (attemptReconnect 7 (openService\<lparr>reconnectAttempts := 2\<rparr>))
      = [SetTimeout 7 ReconnectCallback 4000]"
    by (simp add: attemptReconnect_def openService_def initialService_def
        maxReconnectAttempts_def backoffDelay_def reconnectDelay_def Let_def)
  with h attemptReconnect_backoff [OF h, of 7] show ?thesis by simp
qed

text \<open>
  The first reconnect of a session waits 1000 ms and the fifth 16000 ms; with five attempts
  the cap of 30000 ms is not reached.
\<close>

lemma backoffDelay_values:
  "map backoffDelay [1, 2, 3, 4, 5] = [1000, 2000, 4000, 8000, 16000]"
  by (simp add: backoffDelay_def reconnectDelay_def)

text \<open>
  The callback of the timer that \<open>attemptReconnect\<close> schedules calls \<^verbatim>\<open>connect\<close> while
  \<^verbatim>\<open>isReconnecting\<close> is still set, and \<^verbatim>\<open>connect\<close> returns at its first test (line 48):
  no socket is created and the flag stays set.
\<close>

lemma reconnectCallback_skipped:
  assumes "\<not> isReconnecting s" and "reconnectAttempts s < maxReconnectAttempts"
  shows "reconnectCallback throws cid tid' (fst (attemptReconnect tid s))
     = (fst (attemptReconnect tid s), [], Resolved)"
  using assms by (simp add: reconnectCallback_def connect_def attemptReconnect_def Let_def)

subsection \<open>Exhausted reconnection\<close>

text \<open>
  The branch of lines 161 to 167, where it is reached: with the counter at
  \<open>maxReconnectAttempts\<close> and the flag clear, a request changes nothing, schedules nothing
  and hands the reconnect error to \<^verbatim>\<open>onError\<close>.
\<close>

lemma attemptReconnect_exhausted_branch:
  assumes "reconnectAttempts s \<ge> maxReconnectAttempts" and "\<not> isReconnecting s"
  shows "attemptReconnect tid s = (s, if onError s then [CallOnError ReconnectFailed] else [])"
  using assms by (simp add: attemptReconnect_def)

text \<open>
  But the flag that the first request sets stays set: the callback of its timer does nothing
  (\<open>reconnectCallback_skipped\<close>), and a request that finds the flag set returns at once. So
  a run of requests never gets past the first.
\<close>

lemma reconnectRequests_stuck:
  "isReconnecting s \<Longrightarrow> reconnectRequests tids s = (s, [])"
  by (induction tids) (simp_all add: attemptReconnect_def schedulesReconnect_def)

lemma reconnectRequests_first_only:
  assumes "\<not> isReconnecting s" and "reconnectAttempts s < maxReconnectAttempts"
  shows "reconnectRequests (tid # tids) s = attemptReconnect tid s"
proof -
  obtain s1 es1 where a: "attemptReconnect tid s = (s1, es1)"
    by (cases "attemptReconnect tid s")
  from a assms have f: "isReconnecting s1" and sch: "schedulesReconnect es1"
    by (auto simp add: attemptReconnect_def Let_def schedulesReconnect_def split: option.splits)
  have "reconnectCallback False tid tid s1 = (s1, [], Resolved)"
    using reconnectCallback_skipped [OF assms, of False tid tid tid] a by simp
  then show ?thesis
    using a f sch by (simp add: reconnectRequests_stuck)
qed

text \<open>
  C6, evaluated on a session whose socket has dropped and whose caller has given
  \<^verbatim>\<open>onError\<close>: of six reconnect requests, one more than \<open>maxReconnectAttempts\<close>, the
  first schedules a timer of 1000 ms and the others do nothing. No socket is created, the
  counter stands at 1, and \<^verbatim>\<open>onError\<close> is not called.
\<close>

theorem reconnect_never_exhausted:
  "reconnectRequests [1, 2, 3, 4, 5, 6] droppedService
     = (droppedService\<lparr>reconnectAttempts := 1, reconnectTimer := Some 1, isReconnecting := True\<rparr>,
        [SetTimeout 1 ReconnectCallback 1000])
   \<and> onError droppedService"
proof -
  have h: "\<not> isReconnecting droppedService" "reconnectAttempts droppedService < maxReconnectAttempts"
    by (simp_all add: droppedService_def openService_def initialService_def
        maxReconnectAttempts_def)
  have "attemptReconnect 1 droppedService
     = (droppedService\<lparr>reconnectAttempts := 1, reconnectTimer := Some 1, isReconnecting := True\<rparr>,
        [SetTimeout 1 ReconnectCallback 1000])"
    by (simp add: attemptReconnect_def droppedService_def openService_def initialService_def
        maxReconnectAttempts_def backoffDelay_def reconnectDelay_def Let_def)
  moreover have "onError droppedService"
    by (simp add: droppedService_def openService_def initialService_def)
  ultimately show ?thesis
    by (simp only: reconnectRequests_first_only [OF h])
qed

subsection \<open>The handshake\<close>

lemma sendsText_simps [simp]:
  "sendsText [] = []"
  "sendsText (WsSendText m # es) = m # sendsText es"
  "sendsText (Sleep n # es) = sendsText es"
  "sendsText (es @ es') = sendsText es @ sendsText es'"
  by (simp_all add: sendsText_def)

lemma waitForConnection_effects:
  "sendsText (fst (waitForConnection rd i)) = [] \<and> WsClose \<notin> set (fst (waitForConnection rd i))"
proof (induction rd i rule: waitForConnection.induct)
  case (1 rd i)
  show ?case
  proof (cases "i < 10 \<and> rd i \<noteq> Some OPEN")
    case True
    with 1 show ?thesis
      by (subst (1 2) waitForConnection.simps) (simp add: split_def Let_def)
  next
    case False
    then show ?thesis
      by (subst (1 2) waitForConnection.simps) auto
  qed
qed

lemma configAttempts_effects:
  "(sendsText (fst (configAttempts msg oc k)) = [] \<or> sendsText (fst (configAttempts msg oc k)) = [msg])
   \<and> WsClose \<notin> set (fst (configAttempts msg oc k))"
proof (induction msg oc k rule: configAttempts.induct)
  case (1 msg oc attempt)
  show ?case
  proof (cases "attempt \<le> 3 \<and> oc attempt = SendThrows \<and> attempt \<noteq> 3")
    case True
    with 1 show ?thesis
      by (subst (1 2 3) configAttempts.simps) (simp add: split_def Let_def)
  next
    case False
    then show ?thesis
      by (subst (1 2 3) configAttempts.simps) (auto split: attempt_outcome.split)
  qed
qed

text \<open>
  One call of \<^verbatim>\<open>sendConfig\<close> puts at most one message on the socket, and that message
  is the whole configuration message: every round of the loop that gets as far as
  \<^verbatim>\<open>ws.send\<close> without an exception ends the call, by returning or by throwing.
\<close>

lemma sendConfig_sends:
  "sendsText (fst (sendConfig s env)) = [] \<or> sendsText (fst (sendConfig s env)) = [configMessage s]"
  using configAttempts_effects [of "configMessage s" "outcome env" 1]
    waitForConnection_effects [of "readyAt s env" 0]
  by (auto simp add: sendConfig_def split_def Let_def split: prod.split option.split)

lemma sendConfig_keeps_socket: "WsClose \<notin> set (fst (sendConfig s env))"
  using configAttempts_effects [of "configMessage s" "outcome env" 1]
    waitForConnection_effects [of "readyAt s env" 0]
  by (auto simp add: sendConfig_def split_def Let_def split: prod.split option.split)

text \<open>
  Whatever happens during the handshake, the handler of the open event resolves the promise
  of \<^verbatim>\<open>connect\<close>, leaves the socket field as it finds it and does not close the socket.
\<close>

lemma ws_onopen_resolves:
  "snd (snd (snd (ws_onopen cid settled env s))) = Resolved
   \<and> ws (fst (ws_onopen cid settled env s)) = settled
   \<and> WsClose \<notin> set (fst (snd (ws_onopen cid settled env s)))"
  using sendConfig_keeps_socket [of "s\<lparr>reconnectAttempts := 0, isReconnecting := False, ws := settled\<rparr>" env]
  by (auto simp add: ws_onopen_def Let_def split: prod.split option.split)

text \<open>
  C2, evaluated where no acknowledgement ever arrives. \<^verbatim>\<open>sendConfig\<close> sends the
  configuration once, waits the 5000 ms of the first attempt and returns without error: there
  is no second attempt. The handler of the open event then sets \<^verbatim>\<open>configSent\<close> and
  resolves the promise of \<^verbatim>\<open>connect\<close>.
\<close>

theorem sendConfig_timeout_not_retried:
  "sendConfig openService neverAcknowledged
     = ([WsSendText (configMessage openService), Sleep 5000], None)
   \<and> ws_onopen 3 (ws openService) neverAcknowledged openService
     = (openService,
        [ClearTimeout 3, CallOnOpen, Sleep 500, WsSendText (configMessage openService), Sleep 5000],
        True, Resolved)"
  by (simp add: sendConfig_def ws_onopen_def readyAt_def neverAcknowledged_def openService_def
      initialService_def Let_def waitForConnection.simps configAttempts.simps)

text \<open>
  The later attempts are reached when \<^verbatim>\<open>ws.send\<close> throws, after sleeps of 1000 and
  2000 ms; a timeout of the third attempt is the one that throws.
\<close>

lemma sendConfig_third_timeout:
  "sendConfig openService
     \<lparr>polled = (\<lambda>i. Some OPEN), outcome = (\<lambda>k. if k < 3 then SendThrows else TimedOut)\<rparr>
     = ([Sleep 1000, Sleep 2000, WsSendText (configMessage openService), Sleep 5000],
        Some ConfigTimeout)"
  by (simp add: sendConfig_def readyAt_def openService_def initialService_def Let_def
      waitForConnection.simps configAttempts.simps)

subsection \<open>The configuration message\<close>

text \<open>
  Every message has the same nine fields, with the language and the model of the state:
  there is no partial message.
\<close>

lemma configMessage_keys:
  "payloadKeys (configMessage s) =
     [''language'', ''model'', ''noise_suppression'', ''enable_realtime_transcription'',
      ''use_main_model_for_realtime'', ''realtime_model_type'', ''realtime_processing_pause'',
      ''stabilization_window'', ''match_threshold'']
   \<and> jsonStrings (configMessage s) = [''config'', language s, model s, ''tiny'']"
  by (simp add: configMessage_def)

text \<open>
  C8, evaluated at the call of the recorder with the language \<^verbatim>\<open>en\<close>, the model
  \<^verbatim>\<open>base\<close> and the target language \<^verbatim>\<open>ja\<close>: the message that is sent has no field
  for the target language, and it is the same message for any other target language.
\<close>

theorem updateConfig_omits_target_language:
  "snd (recorderUpdateConfig ''en'' ''base'' ''ja'' openService acknowledging)
     = [WsSendText (JObject [
          (''event'', JStr ''config''),
          (''config'', JObject [
             (''language'', JStr ''en''),
             (''model'', JStr ''base''),
             (''noise_suppression'', JBool False),
             (''enable_realtime_transcription'', JBool True),
             (''use_main_model_for_realtime'', JBool True),
             (''realtime_model_type'', JStr ''tiny''),
             (''realtime_processing_pause'', JNum (2 / 10)),
             (''stabilization_window'', JNum 2),
             (''match_threshold'', JNum 10)])])]
   \<and> recorderUpdateConfig ''en'' ''base'' ''ja'' openService acknowledging
     = recorderUpdateConfig ''en'' ''base'' ''fr'' openService acknowledging"
  by (simp add: recorderUpdateConfig_def updateConfig_def sendConfig_def readyAt_def
      acknowledging_def openService_def initialService_def configMessage_def Let_def
      waitForConnection.simps configAttempts.simps)

subsection \<open>Disconnecting\<close>

text \<open>
  C7. \<^verbatim>\<open>disconnect\<close> is idempotent: a second call leaves the state of the first and
  has no effect of its own. After one call, so after two, the reconnect timer is cleared
  (the first call clears a pending handle and closes a socket that is there) and the field
  is null, the reconnecting flag is false, the counter is 0 and the socket field is null.
\<close>

theorem disconnect_idempotent:
  "fst (disconnect (fst (disconnect s))) = fst (disconnect s)
   \<and> snd (disconnect (fst (disconnect s))) = []
   \<and> snd (disconnect s) =
       (case reconnectTimer s of Some t \<Rightarrow> [ClearTimeout t] | None \<Rightarrow> [])
       @ (case ws s of Some w \<Rightarrow> [WsClose] | None \<Rightarrow> [])
   \<and> reconnectTimer (fst (disconnect s)) = None
   \<and> isReconnecting (fst (disconnect s)) = False
   \<and> reconnectAttempts (fst (disconnect s)) = 0
   \<and> ws (fst (disconnect s)) = None"
  by (simp add: disconnect_def Let_def)

lemma disconnect_example:
  "disconnect (openService\<lparr>reconnectAttempts := 1, reconnectTimer := Some 4, isReconnecting := True\<rparr>)
     = (initialService\<lparr>onOpen := True, onError := True\<rparr>, [ClearTimeout 4, WsClose])"
  by (simp add: disconnect_def openService_def initialService_def Let_def)

subsection \<open>Sending audio\<close>

lemma word_cat_split16:
  "word_cat (ucast (drop_bit 8 x) :: byte) (ucast x :: byte) = (x :: int16)"
  by (rule bit_word_eqI) (auto simp add: bit_word_cat_iff bit_ucast_iff bit_drop_bit_eq)

lemma int16View_bufferOf: "int16View (bufferOf xs) = Some xs"
  by (induction xs) (simp_all add: word_cat_split16)

lemma bufferOf_nonempty: "xs \<noteq> [] \<Longrightarrow> length (bufferOf xs) \<noteq> 0"
  by (cases xs) simp_all

lemma mathMax_map: "xs \<noteq> [] \<Longrightarrow> mathMax (map f xs) = Some (Max (f ` set xs))"
proof (cases xs)
  case Nil
  assume "xs \<noteq> []"
  with Nil show ?thesis by simp
next
  case (Cons a as)
  have "fold max (map f as) (f a) = Max (set (f a # map f as))"
    by (rule Max.set_eq_fold [symmetric])
  then show ?thesis using Cons by simp
qed

text \<open>
  C9. For a non-empty frame of 16-bit samples that the engine can spread (the recorder's
  frames have 1024 samples), handed over as its buffer while the socket is open,
  \<^verbatim>\<open>sendAudioData\<close> returns without error; it sends nothing when the largest absolute
  value of a sample is below 100 and sends the buffer, once and unchanged, otherwise. The
  only other effect is the 100 ms wait when more than 1 MiB is buffered. The test looks at
  the samples only, whatever the recorder decided before.
\<close>

theorem sendAudioData_amplitude_filter:
  assumes "frame \<noteq> []" and "length frame \<le> argLimit"
    and "ws s = Some w" and "readyState w = OPEN"
  shows "sendAudioData argLimit s (bufferOf frame) =
     ((if bufferedAmount w > 1024 * 1024 then [Sleep 100] else []) @
      (if Max ((\<lambda>x. \<bar>sint x\<bar>) ` set frame) < 100 then [] else [WsSendBinary (bufferOf frame)]),
      None)"
  using assms bufferOf_nonempty [OF assms(1)]
  by (simp add: sendAudioData_def int16View_bufferOf mathMax_map belowNumber_def Let_def
      absSample_def)

theorem sendAudioData_amplitude_filter_witness:
  "sendAudioData 65536 openService (bufferOf [5, - 99, 12]) = ([], None)
   \<and> sendAudioData 65536 openService (bufferOf [5, - 100, 12])
       = ([WsSendBinary [5, 0, 156, 255, 12, 0]], None)
   \<and> sendAudioData 65536 openService (bufferOf voicedFrame)
       = ([WsSendBinary (bufferOf voicedFrame)], None)
   \<and> sendAudioData 65536 openService (bufferOf silentFrame) = ([], None)"
proof -
  have w: "ws openService = Some \<lparr>readyState = OPEN, bufferedAmount = 0\<rparr>"
    "readyState \<lparr>readyState = OPEN, bufferedAmount = 0\<rparr> = OPEN"
    by (simp_all add: openService_def initialService_def)
  have a: "[5, - 99, 12 :: int16] \<noteq> []" "length [5, - 99, 12 :: int16] \<le> 65536"
    and b: "[5, - 100, 12 :: int16] \<noteq> []" "length [5, - 100, 12 :: int16] \<le> 65536"
    and c: "voicedFrame \<noteq> []" "length voicedFrame \<le> 65536"
    and d: "silentFrame \<noteq> []" "length silentFrame \<le> 65536"
    by (simp_all add: voicedFrame_def silentFrame_def)
  have m: "Max ((\<lambda>x. \<bar>sint x\<bar>) ` set voicedFrame) = 1000"
    "Max ((\<lambda>x. \<bar>sint x\<bar>) ` set silentFrame) = 0"
    by (simp_all add: voicedFrame_def silentFrame_def)
  show ?thesis
    using sendAudioData_amplitude_filter [OF a w] sendAudioData_amplitude_filter [OF b w]
      sendAudioData_amplitude_filter [OF c w] sendAudioData_amplitude_filter [OF d w] m
    by simp
qed

text \<open>A frame with more samples than the engine spreads is not sent: line 343 throws.\<close>

lemma sendAudioData_over_limit:
  assumes "length frame > argLimit" and "ws s = Some w" and "readyState w = OPEN"
  shows "sendAudioData argLimit s (bufferOf frame) =
     (if bufferedAmount w > 1024 * 1024 then [Sleep 100] else [], Some RangeError)"
proof -
  from assms(1) have "frame \<noteq> []" by auto
  then show ?thesis
    using assms bufferOf_nonempty [of frame]
    by (simp add: sendAudioData_def int16View_bufferOf Let_def)
qed

text \<open>
  C10. With a buffer of length 0, \<^verbatim>\<open>sendAudioData\<close> has no effect at all; it returns
  normally when the socket is open and throws the not-connected error otherwise, and
  nothing else.
\<close>

theorem sendAudioData_empty_buffer:
  "sendAudioData argLimit s [] = ([], if isOpen s then None else Some NotConnected)"
  by (simp add: sendAudioData_def isOpen_def split: option.split)

text \<open>A buffer of odd length is not a frame: the view of line 342 throws.\<close>

lemma sendAudioData_odd_buffer:
  "sendAudioData argLimit openService [1, 2, 3] = ([], Some RangeError)"
  by (simp add: sendAudioData_def openService_def initialService_def)

section \<open>Theorems about the recorder\<close>

subsection \<open>The decision\<close>

text \<open>
  The statistics of lines 453 to 526 in terms of the samples: the peak is the largest
  absolute value of a sample (0 for no sample), and the energies are sums of squares of
  samples, the voice range over the samples at the positions 5 to 25.
\<close>

lemma fold_absmax:
  "fold (\<lambda>x m. if absSample x > m then absSample x else m) xs m0
     = Max (insert m0 ((\<lambda>x. \<bar>sint x\<bar>) ` set xs))"
proof (induction xs arbitrary: m0)
  case Nil
  show ?case by simp
next
  case (Cons a xs)
  have "Max (insert (max m0 \<bar>sint a\<bar>) ((\<lambda>x. \<bar>sint x\<bar>) ` set xs))
      = Max (insert m0 (insert \<bar>sint a\<bar> ((\<lambda>x. \<bar>sint x\<bar>) ` set xs)))"
    by (cases "xs = []") (simp_all add: max.assoc)
  moreover have "(if absSample a > m0 then absSample a else m0) = max m0 \<bar>sint a\<bar>"
    by (simp add: absSample_def max_def)
  ultimately show ?case
    using Cons.IH [of "max m0 \<bar>sint a\<bar>"] by (simp add: insert_commute)
qed

lemma maxAmplitude_Max: "maxAmplitude xs = Max (insert 0 ((\<lambda>x. \<bar>sint x\<bar>) ` set xs))"
  unfolding maxAmplitude_def by (rule fold_absmax)

lemma fold_squares:
  "fold (\<lambda>x acc. acc + sint x * sint x) xs a = a + (\<Sum>x\<leftarrow>xs. (sint x)\<^sup>2)"
  by (induction xs arbitrary: a) (simp_all add: power2_eq_square)

lemma sumOfSquares_sum: "sumOfSquares xs = (\<Sum>x\<leftarrow>xs. (sint x)\<^sup>2)"
  by (simp add: sumOfSquares_def fold_squares)

lemma totalEnergy_sum: "totalEnergy xs = 1 + (\<Sum>x\<leftarrow>xs. (sint x)\<^sup>2)"
  by (simp add: totalEnergy_def fold_squares)

lemma fold_range:
  "fold (\<lambda>(i, x) acc. if i \<ge> voiceFreqMin \<and> i \<le> voiceFreqMax then acc + sint x * sint x else acc)
       (enumerate n xs) a
     = a + (\<Sum>i\<leftarrow>[0..<length xs]. if 5 \<le> n + i \<and> n + i \<le> 25 then (sint (xs ! i))\<^sup>2 else 0)"
proof (induction xs arbitrary: n a)
  case Nil
  show ?case by simp
next
  case (Cons x xs)
  have "[0..<length (x # xs)] = 0 # map Suc [0..<length xs]"
    by (simp add: upt_conv_Cons map_Suc_upt del: upt_Suc)
  then show ?case
    using Cons.IH [of "Suc n"]
    by (simp add: voiceFreqMin_def voiceFreqMax_def power2_eq_square comp_def del: upt_Suc
        cong: if_cong)
qed

lemma voiceRangeEnergy_sum:
  "voiceRangeEnergy xs
     = (\<Sum>i\<leftarrow>[0..<length xs]. if 5 \<le> i \<and> i \<le> 25 then (sint (xs ! i))\<^sup>2 else 0)"
  using fold_range [of 0 xs 0] by (simp add: voiceRangeEnergy_def)

text \<open>
  C3. In heuristic mode (the noise suppressor is off), with \<open>peak\<close> the largest absolute
  value of a sample of the frame, \<open>r\<close> the square root of the mean of the squares of its
  samples, and \<open>ratio\<close> the sum of the squares of the samples at the positions 5 to 25
  divided by one plus the sum of the squares of all samples: at level \<open>Off\<close> every frame is
  kept; at level \<open>High\<close> a frame is kept exactly when the amplitude test (\<open>peak\<close> above 3000
  or \<open>r\<close> above 800) and the ratio test (\<open>ratio\<close> above 0.25) both hold; at \<open>Medium\<close> and
  \<open>Low\<close> a frame is kept exactly when the amplitude test of the level (2000 or 500, 1000 or
  300) holds or \<open>ratio\<close> is above 0.15. So a frame at \<open>High\<close> with \<open>r\<close> above 800 and a
  \<open>ratio\<close> of 0.10 is not kept.
\<close>

theorem isLikelyVoice_heuristic:
  assumes "\<not> useRNNoise rd"
    and "peak = Max (insert 0 ((\<lambda>x. \<bar>sint x\<bar>) ` set xs))"
    and "r = sqrt (real_of_int (\<Sum>x\<leftarrow>xs. (sint x)\<^sup>2) / real (length xs))"
    and "ratio =
      real_of_int (\<Sum>i\<leftarrow>[0..<length xs]. if 5 \<le> i \<and> i \<le> 25 then (sint (xs ! i))\<^sup>2 else 0)
        / real_of_int (1 + (\<Sum>x\<leftarrow>xs. (sint x)\<^sup>2))"
  shows "(noiseFilterLevel rd = Off \<longrightarrow> isLikelyVoice rd xs)
    \<and> (noiseFilterLevel rd = High \<longrightarrow>
         isLikelyVoice rd xs = ((peak > 3000 \<or> r > 800) \<and> ratio > 25 / 100))
    \<and> (noiseFilterLevel rd = Medium \<longrightarrow>
         isLikelyVoice rd xs = ((peak > 2000 \<or> r > 500) \<or> ratio > 15 / 100))
    \<and> (noiseFilterLevel rd = Low \<longrightarrow>
         isLikelyVoice rd xs = ((peak > 1000 \<or> r > 300) \<or> ratio > 15 / 100))
    \<and> (noiseFilterLevel rd = High \<and> r > 800 \<and> ratio = 10 / 100 \<longrightarrow> \<not> isLikelyVoice rd xs)"
proof -
  have p: "maxAmplitude xs = peak"
    using assms(2) by (simp add: maxAmplitude_Max)
  have q: "rms xs = r"
    using assms(3) by (simp add: rms_def sumOfSquares_sum)
  have v: "voiceEnergyRatio xs = ratio"
    using assms(4) by (simp add: voiceEnergyRatio_def voiceRangeEnergy_sum totalEnergy_sum)
  show ?thesis
    using assms(1) by (auto simp add: isLikelyVoice_def voiceRatioThreshold_def Let_def p q v)
qed

lemma loudFrame_samples:
  "Max (insert 0 ((\<lambda>x. \<bar>sint x\<bar>) ` set loudFrame)) = 2999"
  "(\<Sum>x\<leftarrow>loudFrame. (sint x)\<^sup>2) = 9999999"
  "(\<Sum>i\<leftarrow>[0..<6]. if 5 \<le> i \<and> i \<le> 25 then (sint (loudFrame ! i))\<^sup>2 else 0) = 1000000"
  "length loudFrame = 6"
  by (simp_all add: loudFrame_def upt_rec [of _ 6] upt_rec [of _ "Suc _"])

theorem isLikelyVoice_heuristic_witness:
  "\<not> useRNNoise (heuristicRender High) \<and> noiseFilterLevel (heuristicRender High) = High
   \<and> Max (insert 0 ((\<lambda>x. \<bar>sint x\<bar>) ` set loudFrame)) = 2999
   \<and> sqrt (real_of_int (\<Sum>x\<leftarrow>loudFrame. (sint x)\<^sup>2) / real (length loudFrame)) > 800
   \<and> real_of_int (\<Sum>i\<leftarrow>[0..<length loudFrame]. if 5 \<le> i \<and> i \<le> 25 then (sint (loudFrame ! i))\<^sup>2 else 0)
        / real_of_int (1 + (\<Sum>x\<leftarrow>loudFrame. (sint x)\<^sup>2)) = 10 / 100
   \<and> \<not> isLikelyVoice (heuristicRender High) loudFrame
   \<and> isLikelyVoice (heuristicRender Medium) loudFrame
   \<and> isLikelyVoice (heuristicRender Low) loudFrame
   \<and> isLikelyVoice (heuristicRender Off) loudFrame"
proof -
  have r: "\<not> useRNNoise (heuristicRender lvl)" "noiseFilterLevel (heuristicRender lvl) = lvl" for lvl
    by (simp_all add: heuristicRender_def)
  have p: "(2999::int) = Max (insert 0 ((\<lambda>x. \<bar>sint x\<bar>) ` set loudFrame))"
    by (simp only: loudFrame_samples)
  have q: "sqrt (9999999 / 6)
      = sqrt (real_of_int (\<Sum>x\<leftarrow>loudFrame. (sint x)\<^sup>2) / real (length loudFrame))"
    by (simp only: loudFrame_samples) simp
  have v: "(10 / 100 :: real)
      = real_of_int (\<Sum>i\<leftarrow>[0..<length loudFrame]. if 5 \<le> i \<and> i \<le> 25 then (sint (loudFrame ! i))\<^sup>2 else 0)
        / real_of_int (1 + (\<Sum>x\<leftarrow>loudFrame. (sint x)\<^sup>2))"
    by (simp only: loudFrame_samples) simp
  have "(800::real)\<^sup>2 < 9999999 / 6" by simp
  then have s: "800 < sqrt (9999999 / 6 :: real)" by (rule real_less_rsqrt)
  have k: "\<not> isLikelyVoice (heuristicRender High) loudFrame
      \<and> isLikelyVoice (heuristicRender Medium) loudFrame
      \<and> isLikelyVoice (heuristicRender Low) loudFrame
      \<and> isLikelyVoice (heuristicRender Off) loudFrame"
    using isLikelyVoice_heuristic [OF r(1) p q v, of High]
      isLikelyVoice_heuristic [OF r(1) p q v, of Medium]
      isLikelyVoice_heuristic [OF r(1) p q v, of Low]
      isLikelyVoice_heuristic [OF r(1) p q v, of Off]
      s
    by (simp add: r)
  show ?thesis
    using k s
    by (simp only: r p [symmetric] q [symmetric] v [symmetric]) simp
qed

subsection \<open>Frames that are not kept\<close>

lemma fold_absmax_replicate:
  "0 \<le> m \<Longrightarrow> fold (\<lambda>x m. if absSample x > m then absSample x else m) (replicate n v) m
     = (if n = 0 then m else max m (absSample v))"
  by (induction n arbitrary: m) (auto simp add: absSample_def)

lemma maxAmplitude_replicate:
  "maxAmplitude (replicate n v) = (if n = 0 then 0 else absSample v)"
  unfolding maxAmplitude_def by (subst fold_absmax_replicate) (simp_all add: absSample_def)

lemma silentFrame_not_voice: "\<not> isLikelyVoice recordingRender silentFrame"
  by (simp add: isLikelyVoice_def recordingRender_def silentFrame_def maxAmplitude_replicate
      absSample_def)

lemma voicedFrame_voice: "isLikelyVoice recordingRender voicedFrame"
  by (simp add: isLikelyVoice_def recordingRender_def voicedFrame_def maxAmplitude_replicate
      absSample_def)

lemma sendAudioData_frame:
  assumes "frame \<noteq> []" and "isOpen s" and "length frame \<le> argLimit"
  shows "fst (sendAudioData argLimit s (bufferOf frame)) =
     (if bufferedAmount (the (ws s)) > 1024 * 1024 then [Sleep 100] else []) @
     (if Max (absSample ` set frame) < 100 then [] else [WsSendBinary (bufferOf frame)])"
  using assms bufferOf_nonempty [OF assms(1)]
  by (auto simp add: sendAudioData_def isOpen_def int16View_bufferOf mathMax_map belowNumber_def
      Let_def split: option.split)

lemma sendAudioData_sends_argument:
  "WsSendBinary b \<in> set (fst (sendAudioData argLimit s c)) \<Longrightarrow> b = c"
  by (auto simp add: sendAudioData_def Let_def split: option.splits if_splits)

lemma handleAudioProcess_calls:
  "snd (handleAudioProcess rd st f)
     = (if isLikelyVoice rd f \<and> isConnected rd then [bufferOf f] else [])"
  by (simp add: handleAudioProcess_def Let_def)

lemma frames_calls:
  "snd (frames rd st fs) = map bufferOf (filter (\<lambda>f. isLikelyVoice rd f \<and> isConnected rd) fs)"
  by (induction fs arbitrary: st) (simp_all add: split_def Let_def handleAudioProcess_calls)

text \<open>
  C4. A frame that the decision does not keep is never sent: the handler makes no call of
  \<^verbatim>\<open>sendAudioData\<close> for it, so nothing of it reaches the socket; and over a whole
  recording every buffer on the socket is the buffer of a frame that was kept.
\<close>

theorem unkept_frame_never_sent:
  "(\<not> isLikelyVoice rd frame \<longrightarrow>
      snd (handleAudioProcess rd st frame) = []
      \<and> transmitted argLimit s (snd (handleAudioProcess rd st frame)) = [])
   \<and> (\<forall>b. WsSendBinary b \<in> set (transmitted argLimit s (snd (frames rd st fs))) \<longrightarrow>
        (\<exists>f. f \<in> set fs \<and> isLikelyVoice rd f \<and> b = bufferOf f))"
proof -
  have "\<exists>f. f \<in> set fs \<and> isLikelyVoice rd f \<and> b = bufferOf f"
    if "WsSendBinary b \<in> set (transmitted argLimit s (snd (frames rd st fs)))" for b
  proof -
    from that obtain c where c: "c \<in> set (snd (frames rd st fs))"
      and b: "WsSendBinary b \<in> set (fst (sendAudioData argLimit s c))"
      by (auto simp add: transmitted_def)
    from b have "b = c" by (rule sendAudioData_sends_argument)
    with c show ?thesis by (auto simp add: frames_calls)
  qed
  then show ?thesis
    by (simp add: handleAudioProcess_calls transmitted_def)
qed

lemma Max_replicate: "0 < n \<Longrightarrow> Max (f ` set (replicate n v)) = f v"
  by simp

theorem unkept_frame_never_sent_witness:
  "\<not> isLikelyVoice recordingRender silentFrame
   \<and> snd (handleAudioProcess recordingRender startRecorder silentFrame) = []
   \<and> transmitted 65536 openService
        (snd (frames recordingRender startRecorder [silentFrame, voicedFrame]))
       = [WsSendBinary (bufferOf voicedFrame)]
   \<and> isLikelyVoice recordingRender voicedFrame"
proof -
  have o: "isOpen openService" "bufferedAmount (the (ws openService)) = 0"
    by (simp_all add: isOpen_def openService_def initialService_def)
  have v: "voicedFrame \<noteq> []" "Max (absSample ` set voicedFrame) = 1000"
    "length voicedFrame \<le> 65536"
    by (simp_all add: voicedFrame_def absSample_def)
  have c: "isConnected recordingRender" by (simp add: recordingRender_def)
  have t: "transmitted 65536 openService
        (snd (frames recordingRender startRecorder [silentFrame, voicedFrame]))
       = [WsSendBinary (bufferOf voicedFrame)]"
    unfolding transmitted_def frames_calls
    by (simp add: silentFrame_not_voice voicedFrame_voice c
        sendAudioData_frame [OF v(1) o(1) v(3)] o(2) v(2))
  show ?thesis
    using unkept_frame_never_sent [of recordingRender silentFrame startRecorder 65536 openService
        "[silentFrame, voicedFrame]"]
      silentFrame_not_voice voicedFrame_voice t
    by simp
qed

subsection \<open>The silence countdown\<close>

text \<open>
  What \<open>silenceAccounting\<close> does, case by case. With the feature off it does nothing. With
  the feature on, a frame that is not kept is counted, and once the count is above 50 a
  countdown is armed by a handler whose render has \<open>silenceTimerActive = False\<close>; a kept
  frame resets the count. The countdown that elapses stops the recording. But the test of
  line 576 reads the same \<open>silenceTimerActive\<close> of the render: a handler that can arm a
  countdown cannot clear one, and a handler that can clear one cannot arm one.
\<close>

lemma silenceAccounting_disabled:
  "\<not> autoPauseAfterSilence rd \<Longrightarrow> silenceAccounting rd voice st = st"
  by (simp add: silenceAccounting_def)

lemma silenceAccounting_arms:
  assumes "autoPauseAfterSilence rd" and "\<not> silenceTimerActive rd" and "silenceCounterRef st \<ge> 50"
  shows "silenceAccounting rd False st =
     st\<lparr>silenceCounterRef := silenceCounterRef st + 1, silenceTimerActiveState := True,
        silenceTimerRef := Some (nextTimer st), timers := timers st @ [nextTimer st],
        nextTimer := nextTimer st + 1\<rparr>"
  using assms by (simp add: silenceAccounting_def Let_def)

lemma silenceAccounting_counts:
  assumes "autoPauseAfterSilence rd" and "silenceCounterRef st < 50"
  shows "silenceAccounting rd False st = st\<lparr>silenceCounterRef := silenceCounterRef st + 1\<rparr>"
  using assms by (simp add: silenceAccounting_def Let_def)

lemma silenceAccounting_resets:
  "autoPauseAfterSilence rd \<Longrightarrow> silenceCounterRef (silenceAccounting rd True st) = 0"
  by (simp add: silenceAccounting_def Let_def split: option.split)

lemma silenceAccounting_keeps_countdown:
  "\<not> silenceTimerActive rd \<Longrightarrow> timers (silenceAccounting rd True st) = timers st"
  by (simp add: silenceAccounting_def Let_def split: option.split)

lemma silenceAccounting_never_arms:
  "silenceTimerActive rd \<Longrightarrow> timers (silenceAccounting rd False st) = timers st"
  by (simp add: silenceAccounting_def Let_def)

lemma countdownElapses_stops:
  "t \<in> set (timers st) \<Longrightarrow> \<not> isRecording (countdownElapses t st)"
  by (simp add: countdownElapses_def)

lemma frames_append:
  "frames rd st (xs @ ys) =
     (let (st1, out1) = frames rd st xs; (st2, out2) = frames rd st1 ys in (st2, out1 @ out2))"
  by (induction xs arbitrary: st) (simp_all add: split_def Let_def)

lemma silent_run:
  assumes "\<not> isLikelyVoice rd f" and "autoPauseAfterSilence rd"
  shows "silenceCounterRef st + n \<le> 50 \<Longrightarrow>
     fst (frames rd st (replicate n f)) = st\<lparr>silenceCounterRef := silenceCounterRef st + n\<rparr>"
proof (induction n arbitrary: st)
  case 0
  then show ?case by simp
next
  case (Suc n)
  let ?st1 = "st\<lparr>silenceCounterRef := silenceCounterRef st + 1\<rparr>"
  have step: "fst (handleAudioProcess rd st f) = ?st1"
    using assms Suc.prems by (simp add: handleAudioProcess_def silenceAccounting_def Let_def)
  have "fst (frames rd ?st1 (replicate n f)) = ?st1\<lparr>silenceCounterRef := silenceCounterRef ?st1 + n\<rparr>"
    using Suc.prems by (intro Suc.IH) simp
  then show ?case
    using step by (simp add: split_def Let_def)
qed

text \<open>
  C5, evaluated on a recording with the feature on: 51 frames of silence arm the countdown
  with handle 1; the frame of amplitude 1000 that follows is kept and resets the counter,
  but the countdown is still pending and the ref still holds its handle; when it elapses
  the recording stops.
\<close>

theorem countdown_survives_kept_frame:
  "fst (frames recordingRender startRecorder (replicate 51 silentFrame @ [voicedFrame]))
     = startRecorder\<lparr>silenceCounterRef := 0, silenceTimerRef := Some 1, timers := [1],
         nextTimer := 2, silenceTimerActiveState := True\<rparr>
   \<and> isRecording (countdownElapses 1
        (fst (frames recordingRender startRecorder (replicate 51 silentFrame @ [voicedFrame]))))
     = False"
proof -
  have a: "autoPauseAfterSilence recordingRender" "\<not> silenceTimerActive recordingRender"
    by (simp_all add: recordingRender_def)
  have r50: "fst (frames recordingRender startRecorder (replicate 50 silentFrame))
      = startRecorder\<lparr>silenceCounterRef := 50\<rparr>"
    using silent_run [OF silentFrame_not_voice a(1), of startRecorder 50]
    by (simp add: startRecorder_def)
  have r51: "fst (handleAudioProcess recordingRender (startRecorder\<lparr>silenceCounterRef := 50\<rparr>) silentFrame)
      = startRecorder\<lparr>silenceCounterRef := 51, silenceTimerRef := Some 1, timers := [1],
          nextTimer := 2, silenceTimerActiveState := True\<rparr>"
    using silentFrame_not_voice a
    by (simp add: handleAudioProcess_def silenceAccounting_def Let_def startRecorder_def)
  have r52: "fst (handleAudioProcess recordingRender
        (startRecorder\<lparr>silenceCounterRef := 51, silenceTimerRef := Some 1, timers := [1],
          nextTimer := 2, silenceTimerActiveState := True\<rparr>) voicedFrame)
      = startRecorder\<lparr>silenceCounterRef := 0, silenceTimerRef := Some 1, timers := [1],
          nextTimer := 2, silenceTimerActiveState := True\<rparr>"
    using voicedFrame_voice a
    by (simp add: handleAudioProcess_def silenceAccounting_def Let_def startRecorder_def)
  have "(51::nat) = Suc 50" by simp
  then have "replicate 51 silentFrame = silentFrame # replicate 50 silentFrame"
    by (simp only: replicate_Suc)
  also have "\<dots> = replicate 50 silentFrame @ [silentFrame]"
    by (simp only: replicate_append_same)
  finally have split: "replicate 51 silentFrame @ [voicedFrame]
      = replicate 50 silentFrame @ [silentFrame, voicedFrame]"
    by simp
  have "fst (frames recordingRender startRecorder (replicate 51 silentFrame @ [voicedFrame]))
     = startRecorder\<lparr>silenceCounterRef := 0, silenceTimerRef := Some 1, timers := [1],
         nextTimer := 2, silenceTimerActiveState := True\<rparr>"
    unfolding split frames_append
    using r50 r51 r52 by (simp add: split_def Let_def)
  then show ?thesis
    by (simp add: countdownElapses_def startRecorder_def)
qed

end
